theory Spec2Isabelle
  imports Main "HOL-Library.Word" "HOL-Library.Multiset"
begin

section \<open>The task manager of aplication\_maps\<close>

text \<open>
  The program is the class \<open>TaskManager\<close> of \<open>aplication_maps.ts\<close> (compiled to
  \<open>aplication_maps.js\<close>): a \<open>Map<string, Task>\<close> kept in memory and written to one slot of
  the browser's \<open>localStorage\<close> after every mutation. The class \<open>TaskUI\<close> only wires the
  page to it and is not modelled.

  What the platform supplies (strings, \<open>Map\<close>, \<open>Array.prototype.sort\<close>, \<open>Date\<close>,
  \<open>JSON\<close>, \<open>localStorage\<close>) is modelled from ECMAScript and the Web Storage interface, each
  under a name that says so; the methods of the class are translated line by line.
\<close>

subsection \<open>Strings and \<open>String.prototype.trim\<close>\<close>

text \<open>
  A JavaScript string is a sequence of UTF-16 code units. \<open>js\<close> writes a literal.
\<close>

type_synonym jsstring = "16 word list"

definition js :: "string \<Rightarrow> jsstring" where
  "js s = map of_char s"

text \<open>
  ECMAScript's \<open>WhiteSpace\<close> and \<open>LineTerminator\<close> code points: TAB, LF, VT, FF, CR, SP,
  NBSP, the other space separators (category Zs), LS, PS and the byte order mark.
\<close>

definition isWhiteSpace :: "16 word \<Rightarrow> bool" where
  "isWhiteSpace c = (c \<in> set [0x9, 0xA, 0xB, 0xC, 0xD, 0x20, 0xA0, 0x1680,
      0x2000, 0x2001, 0x2002, 0x2003, 0x2004, 0x2005, 0x2006, 0x2007, 0x2008, 0x2009, 0x200A,
      0x2028, 0x2029, 0x202F, 0x205F, 0x3000, 0xFEFF])"

definition trim :: "jsstring \<Rightarrow> jsstring" where
  "trim s = rev (dropWhile isWhiteSpace (rev (dropWhile isWhiteSpace s)))"

subsection \<open>The \<open>Task\<close> interface\<close>

text \<open>
  \<open>createdAt\<close> is a \<open>Date\<close> object when the task is created (its time value in
  milliseconds) and, after a trip through JSON, the ISO text of that time value:
  \<open>JSON.parse\<close> does not turn it back into a \<open>Date\<close>.
\<close>

datatype created = Date_object int | Date_text int

record task =
  id_field :: jsstring
  description :: jsstring
  datetime :: jsstring
  createdAt :: created

subsection \<open>\<open>Map\<close>: unique keys in insertion order\<close>

text \<open>
  An ES6 \<open>Map\<close> iterates in insertion order, so it is an association list whose keys are
  distinct. \<open>set\<close> on a key that is present replaces the value in place, on a new key it
  appends; \<open>delete\<close> says whether the key was there.
\<close>

type_synonym ('k, 'v) jsmap = "('k \<times> 'v) list"

definition Map_has :: "'k \<Rightarrow> ('k, 'v) jsmap \<Rightarrow> bool" where
  "Map_has k m = (map_of m k \<noteq> None)"

definition Map_get :: "'k \<Rightarrow> ('k, 'v) jsmap \<Rightarrow> 'v option" where
  "Map_get k m = map_of m k"

fun Map_set :: "'k \<Rightarrow> 'v \<Rightarrow> ('k, 'v) jsmap \<Rightarrow> ('k, 'v) jsmap" where
  "Map_set k v [] = [(k, v)]"
| "Map_set k v (e # m) = (if fst e = k then (k, v) # m else e # Map_set k v m)"

definition Map_delete :: "'k \<Rightarrow> ('k, 'v) jsmap \<Rightarrow> bool \<times> ('k, 'v) jsmap" where
  "Map_delete k m = (Map_has k m, filter (\<lambda>e. fst e \<noteq> k) m)"

definition Map_size :: "('k, 'v) jsmap \<Rightarrow> nat" where
  "Map_size m = length m"

definition Map_values :: "('k, 'v) jsmap \<Rightarrow> 'v list" where
  "Map_values m = map snd m"

definition Map_entries :: "('k, 'v) jsmap \<Rightarrow> ('k \<times> 'v) list" where
  "Map_entries m = m"

definition Map_clear :: "('k, 'v) jsmap \<Rightarrow> ('k, 'v) jsmap" where
  "Map_clear m = []"

text \<open>\<open>new Map(entries)\<close> sets the entries one after the other.\<close>

definition Map_new :: "('k \<times> 'v) list \<Rightarrow> ('k, 'v) jsmap" where
  "Map_new es = foldl (\<lambda>m e. Map_set (fst e) (snd e) m) [] es"

text \<open>The invariant of the container: no key twice.\<close>

definition Map_ok :: "('k, 'v) jsmap \<Rightarrow> bool" where
  "Map_ok m = distinct (map fst m)"

subsection \<open>\<open>localStorage\<close> and \<open>JSON\<close>\<close>

text \<open>
  The text kept in a slot is modelled by what it says: \<open>Text_entries es\<close> is the JSON text
  of an array of \<open>[key, task]\<close> pairs, \<open>Text_empty\<close> the empty string (falsy in
  \<open>if (stored)\<close>), \<open>Text_other\<close> any text on which \<open>JSON.parse\<close> or the \<open>Map\<close>
  constructor throws. Texts that parse to something else than \<open>Map<string, Task>\<close> entries
  are outside the program's types and not modelled.

  \<open>JSON.stringify\<close> writes a \<open>Date\<close> through its \<open>toJSON\<close>, as ISO text; strings, keys and
  the order of the pairs are written as they are, and \<open>JSON.parse\<close> reads them back.
\<close>

datatype stored = Text_entries "(jsstring \<times> task) list" | Text_empty | Text_other

definition toJSON :: "task \<Rightarrow> task" where
  "toJSON t = t\<lparr>createdAt := (case createdAt t of Date_object n \<Rightarrow> Date_text n | Date_text n \<Rightarrow> Date_text n)\<rparr>"

definition JSON_stringify :: "(jsstring \<times> task) list \<Rightarrow> stored" where
  "JSON_stringify es = Text_entries (map (\<lambda>e. (fst e, toJSON (snd e))) es)"

datatype exception = SyntaxError | QuotaExceededError

fun JSON_parse :: "stored \<Rightarrow> exception + (jsstring \<times> task) list" where
  "JSON_parse (Text_entries es) = Inr es"
| "JSON_parse Text_empty = Inl SyntaxError"
| "JSON_parse Text_other = Inl SyntaxError"

text \<open>
  The storage: its slots by key, which values it refuses (\<open>setItem\<close> throws when the quota
  is exceeded), and how many times \<open>setItem\<close> was called, so that "persisted again" and
  "not written" can be told apart.
\<close>

record storage =
  items :: "string \<rightharpoonup> stored"
  over_quota :: "stored \<Rightarrow> bool"
  setItem_calls :: nat

definition getItem :: "string \<Rightarrow> storage \<Rightarrow> stored option" where
  "getItem k ls = items ls k"

definition setItem :: "string \<Rightarrow> stored \<Rightarrow> storage \<Rightarrow> (exception + unit) \<times> storage" where
  "setItem k v ls =
     (let ls' = ls\<lparr>setItem_calls := Suc (setItem_calls ls)\<rparr> in
      if over_quota ls v then (Inl QuotaExceededError, ls')
      else (Inr (), ls'\<lparr>items := (items ls)(k \<mapsto> v)\<rparr>))"

subsection \<open>class \<open>TaskManager\<close>\<close>

text \<open>The object's field \<open>tasks\<close> and the global \<open>localStorage\<close> it writes to.\<close>

record state =
  tasks :: "(jsstring, task) jsmap"
  localStorage :: storage

definition STORAGE_KEY :: string where
  "STORAGE_KEY = ''taskManager_tasks''"

text \<open>The two errors \<open>addTask\<close> throws; the first message quotes the id.\<close>

datatype error = DuplicateKey jsstring | InvalidInput

text \<open>\<open>saveToLocalStorage\<close>: what \<open>setItem\<close> throws is caught and logged.\<close>

definition saveToLocalStorage :: "state \<Rightarrow> state" where
  "saveToLocalStorage s =
     (let tasksArray = Map_entries (tasks s) in
      case setItem STORAGE_KEY (JSON_stringify tasksArray) (localStorage s) of
        (Inr _, ls') \<Rightarrow> s\<lparr>localStorage := ls'\<rparr>
      | (Inl _, ls') \<Rightarrow> s\<lparr>localStorage := ls'\<rparr>)"

text \<open>
  \<open>loadFromLocalStorage\<close>: an absent slot (\<open>null\<close>) and the empty string are falsy and
  leave \<open>tasks\<close> as it is; what \<open>JSON.parse\<close> throws is caught and empties \<open>tasks\<close>.
\<close>

definition loadFromLocalStorage :: "state \<Rightarrow> state" where
  "loadFromLocalStorage s =
     (case getItem STORAGE_KEY (localStorage s) of
        None \<Rightarrow> s
      | Some Text_empty \<Rightarrow> s
      | Some stored \<Rightarrow>
          (case JSON_parse stored of
             Inr tasksArray \<Rightarrow> s\<lparr>tasks := Map_new tasksArray\<rparr>
           | Inl _ \<Rightarrow> s\<lparr>tasks := []\<rparr>))"

text \<open>The constructor, run at the start of a session on the storage it finds.\<close>

definition constructor :: "storage \<Rightarrow> state" where
  "constructor ls = loadFromLocalStorage \<lparr>tasks = [], localStorage = ls\<rparr>"

text \<open>
  \<open>addTask\<close>; \<open>now\<close> is the clock read by \<open>new Date()\<close>. A throw leaves the state as it
  was: both happen before anything is written. The key of the entry is the \<open>id\<close> as given,
  the \<open>id\<close> field of the task is trimmed.
\<close>

definition addTask :: "int \<Rightarrow> jsstring \<Rightarrow> jsstring \<Rightarrow> jsstring \<Rightarrow> state \<Rightarrow> (error + bool) \<times> state" where
  "addTask now id_arg description_arg datetime_arg s =
     (if Map_has id_arg (tasks s) then (Inl (DuplicateKey id_arg), s)
      else if trim id_arg = [] \<or> trim description_arg = [] \<or> trim datetime_arg = []
        then (Inl InvalidInput, s)
      else
        let newTask = \<lparr>id_field = trim id_arg, description = trim description_arg,
                       datetime = datetime_arg, createdAt = Date_object now\<rparr>;
            s1 = s\<lparr>tasks := Map_set id_arg newTask (tasks s)\<rparr>
        in (Inr True, saveToLocalStorage s1))"

definition getTask :: "jsstring \<Rightarrow> state \<Rightarrow> task option" where
  "getTask id_arg s = Map_get id_arg (tasks s)"

definition removeTask :: "jsstring \<Rightarrow> state \<Rightarrow> bool \<times> state" where
  "removeTask id_arg s =
     (case Map_delete id_arg (tasks s) of
        (deleted, m) \<Rightarrow>
          let s1 = s\<lparr>tasks := m\<rparr> in
          if deleted then (deleted, saveToLocalStorage s1) else (deleted, s1))"

definition hasTask :: "jsstring \<Rightarrow> state \<Rightarrow> bool" where
  "hasTask id_arg s = Map_has id_arg (tasks s)"

definition getTaskCount :: "state \<Rightarrow> nat" where
  "getTaskCount s = Map_size (tasks s)"

definition clearAllTasks :: "state \<Rightarrow> state" where
  "clearAllTasks s = saveToLocalStorage (s\<lparr>tasks := Map_clear (tasks s)\<rparr>)"

subsection \<open>\<open>Date\<close> and \<open>Array.prototype.sort\<close>\<close>

text \<open>
  \<open>new Date(text).getTime()\<close> is a whole number of milliseconds, or \<open>NaN\<close> (here
  \<open>None\<close>) when the text does not parse. Which texts parse, and to what, is the engine's
  business (and the time zone's), so \<open>getAllTasks\<close> takes the parser as a parameter.

  The difference of two time values is \<open>NaN\<close> when one of them is. (The difference of two
  time values may be rounded by the floating point subtraction, but never across zero, and
  only its sign is used.)
\<close>

definition compare_datetime :: "(jsstring \<Rightarrow> int option) \<Rightarrow> task \<Rightarrow> task \<Rightarrow> int option" where
  "compare_datetime parse a b =
     (case (parse (datetime a), parse (datetime b)) of
        (Some x, Some y) \<Rightarrow> Some (x - y)
      | _ \<Rightarrow> None)"

text \<open>
  \<open>Array.prototype.sort\<close> with a comparator. ECMAScript's \<open>SortCompare\<close> reads a \<open>NaN\<close>
  from the comparator as \<open>+0\<close>. The sort is stable; with a comparator that orders the
  elements consistently every engine returns the same array (lemma
  \<open>Array_sort_eq_sort_key\<close> below), and otherwise the order is the engine's choice. The
  model is the stable insertion sort: each element in turn moves left past the elements
  that compare greater. \<open>sort_insert\<close> holds the sorted part of the array in reverse,
  nearest element first.
\<close>

definition SortCompare :: "('a \<Rightarrow> 'a \<Rightarrow> int option) \<Rightarrow> 'a \<Rightarrow> 'a \<Rightarrow> int" where
  "SortCompare comparefn x y = (case comparefn x y of None \<Rightarrow> 0 | Some v \<Rightarrow> v)"

fun sort_insert :: "('a \<Rightarrow> 'a \<Rightarrow> int option) \<Rightarrow> 'a \<Rightarrow> 'a list \<Rightarrow> 'a list" where
  "sort_insert comparefn x [] = [x]"
| "sort_insert comparefn x (y # ys) =
     (if SortCompare comparefn y x > 0 then y # sort_insert comparefn x ys else x # y # ys)"

definition Array_sort :: "('a \<Rightarrow> 'a \<Rightarrow> int option) \<Rightarrow> 'a list \<Rightarrow> 'a list" where
  "Array_sort comparefn xs = rev (foldl (\<lambda>sorted_part x. sort_insert comparefn x sorted_part) [] xs)"

text \<open>
  A parser for concrete runs: the form \<open>YYYY-MM-DDTHH:mm\<close> of ECMAScript's date-time
  string format, which the examples use, read in a local time zone at offset zero. Every
  other text is unparseable here; engines accept more and differ in what.
\<close>

definition digit :: "16 word \<Rightarrow> nat option" where
  "digit c = (if 0x30 \<le> c \<and> c \<le> 0x39 then Some (unat c - 48) else None)"

fun digits :: "nat \<Rightarrow> jsstring \<Rightarrow> nat option" where
  "digits n [] = Some n"
| "digits n (c # cs) = (case digit c of None \<Rightarrow> None | Some d \<Rightarrow> digits (10 * n + d) cs)"

definition DaysInMonth :: "nat \<Rightarrow> nat \<Rightarrow> nat" where
  "DaysInMonth y m =
     (if m = 2 then (if y mod 4 = 0 \<and> (y mod 100 \<noteq> 0 \<or> y mod 400 = 0) then 29 else 28)
      else if m \<in> {4, 6, 9, 11} then 30 else 31)"

text \<open>Days from 1970-01-01 to the given day of the proleptic Gregorian calendar.\<close>

definition MakeDay :: "nat \<Rightarrow> nat \<Rightarrow> nat \<Rightarrow> int" where
  "MakeDay y m d =
     (let y' = (if m \<le> 2 then int y - 1 else int y);
          era = y' div 400;
          yoe = y' - era * 400;
          mp = (if m \<le> 2 then int m + 9 else int m - 3);
          doy = (153 * mp + 2) div 5 + int d - 1;
          doe = yoe * 365 + yoe div 4 - yoe div 100 + doy
      in era * 146097 + doe - 719468)"

definition Date_parse :: "jsstring \<Rightarrow> int option" where
  "Date_parse s =
     (if length s = 16 \<and> s ! 4 = 0x2D \<and> s ! 7 = 0x2D \<and> s ! 10 = 0x54 \<and> s ! 13 = 0x3A then
        (case (digits 0 (take 4 s), digits 0 (take 2 (drop 5 s)), digits 0 (take 2 (drop 8 s)),
               digits 0 (take 2 (drop 11 s)), digits 0 (take 2 (drop 14 s))) of
           (Some y, Some m, Some d, Some h, Some mi) \<Rightarrow>
             if 1 \<le> m \<and> m \<le> 12 \<and> 1 \<le> d \<and> d \<le> DaysInMonth y m \<and> h \<le> 23 \<and> mi \<le> 59
             then Some (((MakeDay y m d * 24 + int h) * 60 + int mi) * 60000)
             else None
         | _ \<Rightarrow> None)
      else None)"

text \<open>\<open>getAllTasks\<close>: a fresh array of the values, sorted by the parsed \<open>datetime\<close>.\<close>

definition getAllTasks :: "(jsstring \<Rightarrow> int option) \<Rightarrow> state \<Rightarrow> task list" where
  "getAllTasks parse s = Array_sort (compare_datetime parse) (Map_values (tasks s))"

subsection \<open>Properties and example stores\<close>

text \<open>
  A list of tasks is in ascending order of \<open>datetime\<close> when no two tasks whose dates
  parse stand in the wrong order; a task whose date does not parse has no place of its own.
\<close>

definition ascending_by_datetime :: "(jsstring \<Rightarrow> int option) \<Rightarrow> task list \<Rightarrow> bool" where
  "ascending_by_datetime parse ts =
     sorted_wrt (\<lambda>a b. case (parse (datetime a), parse (datetime b)) of
                          (Some x, Some y) \<Rightarrow> x \<le> y
                        | _ \<Rightarrow> True) ts"

text \<open>A storage with nothing in it that takes every write, and one that refuses every write.\<close>

definition fresh_storage :: storage where
  "fresh_storage = \<lparr>items = Map.empty, over_quota = (\<lambda>v. False), setItem_calls = 0\<rparr>"

definition full_storage :: storage where
  "full_storage = \<lparr>items = Map.empty, over_quota = (\<lambda>v. True), setItem_calls = 0\<rparr>"

text \<open>The stores of the spec's end-to-end scenario.\<close>

definition store_T1 :: state where
  "store_T1 = snd (addTask 0 (js ''T1'') (js ''Write report'') (js ''2025-07-15T14:30'')
                 (constructor fresh_storage))"

definition store_T1_T2 :: state where
  "store_T1_T2 = snd (addTask 1 (js ''T2'') (js ''Other'') (js ''2025-07-16T09:00'') store_T1)"

text \<open>Four tasks; the \<open>datetime\<close> of the second and of the third is no date.\<close>

definition store_unparseable :: state where
  "store_unparseable =
     snd (addTask 4 (js ''d'') (js ''fourth'') (js ''2025-01-01T09:00'')
       (snd (addTask 3 (js ''c'') (js ''third'') (js ''later'')
         (snd (addTask 2 (js ''b'') (js ''second'') (js ''soon'')
           (snd (addTask 1 (js ''a'') (js ''first'') (js ''2025-01-03T08:00'')
             (constructor fresh_storage))))))))"

text \<open>A session whose storage refuses every write.\<close>

definition store_full :: state where
  "store_full = constructor full_storage"

text \<open>The same session after a task was added: the task is in memory only.\<close>

definition store_T1_unsaved :: state where
  "store_T1_unsaved = snd (addTask 0 (js ''T1'') (js ''Write report'') (js ''2025-07-15T14:30'')
                         store_full)"

text \<open>One task under the key \<open>a\<close>; and two tasks added under the keys \<open>" a"\<close> and \<open>"a"\<close>.\<close>

definition store_a :: state where
  "store_a = snd (addTask 1 (js ''a'') (js ''first'') (js ''2025-01-01T09:00'') (constructor fresh_storage))"

definition store_padded_twice :: state where
  "store_padded_twice =
     snd (addTask 2 (js ''a'') (js ''second'') (js ''2025-01-02T10:00'')
       (snd (addTask 1 (js '' a'') (js ''first'') (js ''2025-01-01T09:00'')
         (constructor fresh_storage))))"

text \<open>The three tasks of the spec's example for the listing, in its order of insertion.\<close>

definition store_three :: state where
  "store_three =
     snd (addTask 3 (js ''c'') (js ''third'') (js ''2025-01-03T08:00'')
       (snd (addTask 2 (js ''b'') (js ''second'') (js ''2025-01-01T09:00'')
         (snd (addTask 1 (js ''a'') (js ''first'') (js ''2025-01-02T10:00'')
           (constructor fresh_storage))))))"

section \<open>Lemmas\<close>

subsection \<open>The container\<close>

lemma Map_set_absent: "map_of m k = None \<Longrightarrow> Map_set k v m = m @ [(k, v)]"
  by (induction m) (auto split: if_splits)

lemma map_of_Map_set: "map_of (Map_set k v m) = (map_of m)(k \<mapsto> v)"
  by (induction m) (auto simp: fun_eq_iff)

lemma keys_Map_set:
  "map fst (Map_set k v m) = (if k \<in> set (map fst m) then map fst m else map fst m @ [k])"
  by (induction m) auto

lemma Map_ok_set: "Map_ok m \<Longrightarrow> Map_ok (Map_set k v m)"
  by (simp add: Map_ok_def keys_Map_set)

lemma filter_absent: "map_of m k = None \<Longrightarrow> filter (\<lambda>e. fst e \<noteq> k) m = m"
  by (induction m) (auto split: if_splits)

lemma map_of_filter_key:
  "map_of (filter (\<lambda>e. fst e \<noteq> k) m) k' = (if k' = k then None else map_of m k')"
  by (induction m) auto

lemma length_filter_present:
  "distinct (map fst m) \<Longrightarrow> map_of m k \<noteq> None \<Longrightarrow> Suc (length (filter (\<lambda>e. fst e \<noteq> k) m)) = length m"
proof (induction m)
  case Nil
  then show ?case by simp
next
  case (Cons e m)
  show ?case
  proof (cases "fst e = k")
    case True
    with Cons.prems have "map_of m k = None"
      by (cases e) (auto simp: map_of_eq_None_iff)
    then show ?thesis using True by (simp add: filter_absent)
  next
    case False
    with Cons show ?thesis by (cases e) auto
  qed
qed

lemma Map_ok_filter: "Map_ok m \<Longrightarrow> Map_ok (filter P m)"
  by (simp add: Map_ok_def distinct_map_filter)

lemma foldl_Map_set_distinct:
  "distinct (map fst (acc @ es)) \<Longrightarrow> foldl (\<lambda>m e. Map_set (fst e) (snd e) m) acc es = acc @ es"
proof (induction es arbitrary: acc)
  case Nil
  then show ?case by simp
next
  case (Cons e es)
  from Cons.prems have "map_of acc (fst e) = None"
    by (auto simp: map_of_eq_None_iff)
  then have "Map_set (fst e) (snd e) acc = acc @ [e]"
    by (simp add: Map_set_absent)
  moreover from Cons.prems have "distinct (map fst ((acc @ [e]) @ es))" by simp
  ultimately show ?case using Cons.IH [of "acc @ [e]"] by simp
qed

lemma Map_new_distinct: "Map_ok es \<Longrightarrow> Map_new es = es"
  using foldl_Map_set_distinct [of "[]" es] by (simp add: Map_new_def Map_ok_def)

lemma Map_ok_foldl:
  "Map_ok acc \<Longrightarrow> Map_ok (foldl (\<lambda>m e. Map_set (fst e) (snd e) m) acc es)"
  by (induction es arbitrary: acc) (auto simp: Map_ok_set)

lemma Map_ok_new: "Map_ok (Map_new es)"
  unfolding Map_new_def by (rule Map_ok_foldl) (simp add: Map_ok_def)

subsection \<open>The sort: a permutation, sorted and stable when the comparator is a difference of keys\<close>

lemma set_sort_insert: "set (sort_insert c x ys) = insert x (set ys)"
  by (induction ys) auto

lemma mset_sort_insert: "mset (sort_insert c x ys) = add_mset x (mset ys)"
  by (induction ys) auto

lemma mset_foldl_sort_insert:
  "mset (foldl (\<lambda>d x. sort_insert c x d) acc xs) = mset acc + mset xs"
  by (induction xs arbitrary: acc) (auto simp: mset_sort_insert)

lemma mset_Array_sort: "mset (Array_sort c xs) = mset xs"
  by (simp add: Array_sort_def mset_foldl_sort_insert)

lemma sorted_sort_insert:
  assumes "\<forall>y\<in>set ys. c y x = Some (f y - f x)"
    and "sorted_wrt (\<lambda>a b. f b \<le> f a) ys"
  shows "sorted_wrt (\<lambda>a b. f b \<le> f a) (sort_insert c x ys)"
  using assms
proof (induction ys)
  case Nil
  then show ?case by simp
next
  case (Cons y ys)
  then show ?case
    by (auto simp: SortCompare_def set_sort_insert)
qed

lemma sorted_foldl_sort_insert:
  assumes "\<forall>a\<in>set acc \<union> set xs. \<forall>b\<in>set acc \<union> set xs. c a b = Some (f a - f b)"
    and "sorted_wrt (\<lambda>a b. f b \<le> f a) acc"
  shows "sorted_wrt (\<lambda>a b. f b \<le> f a) (foldl (\<lambda>d x. sort_insert c x d) acc xs)"
  using assms
proof (induction xs arbitrary: acc)
  case Nil
  then show ?case by simp
next
  case (Cons x xs)
  have "sorted_wrt (\<lambda>a b. f b \<le> f a) (sort_insert c x acc)"
    using Cons.prems by (intro sorted_sort_insert) auto
  moreover have "\<forall>a\<in>set (sort_insert c x acc) \<union> set xs. \<forall>b\<in>set (sort_insert c x acc) \<union> set xs.
      c a b = Some (f a - f b)"
    using Cons.prems(1) by (auto simp: set_sort_insert)
  ultimately show ?case using Cons.IH [of "sort_insert c x acc"] by simp
qed

lemma sorted_Array_sort:
  assumes "\<forall>a\<in>set xs. \<forall>b\<in>set xs. c a b = Some (f a - f b)"
  shows "sorted (map f (Array_sort c xs))"
proof -
  have "sorted_wrt (\<lambda>a b. f b \<le> f a) (foldl (\<lambda>d x. sort_insert c x d) [] xs)"
    using assms by (intro sorted_foldl_sort_insert) auto
  then show ?thesis
    by (simp add: Array_sort_def sorted_map sorted_wrt_rev)
qed

lemma filter_sort_insert:
  assumes "\<forall>y\<in>set ys. c y x = Some (f y - f x)"
  shows "filter (\<lambda>y. f y = k) (sort_insert c x ys) = filter (\<lambda>y. f y = k) (x # ys)"
  using assms by (induction ys) (auto simp: SortCompare_def)

lemma filter_foldl_sort_insert:
  assumes "\<forall>a\<in>set acc \<union> set xs. \<forall>b\<in>set acc \<union> set xs. c a b = Some (f a - f b)"
  shows "filter (\<lambda>y. f y = k) (rev (foldl (\<lambda>d x. sort_insert c x d) acc xs))
       = filter (\<lambda>y. f y = k) (rev acc @ xs)"
  using assms
proof (induction xs arbitrary: acc)
  case Nil
  then show ?case by simp
next
  case (Cons x xs)
  have 1: "filter (\<lambda>y. f y = k) (sort_insert c x acc) = filter (\<lambda>y. f y = k) (x # acc)"
    using Cons.prems by (intro filter_sort_insert) auto
  have "\<forall>a\<in>set (sort_insert c x acc) \<union> set xs. \<forall>b\<in>set (sort_insert c x acc) \<union> set xs.
      c a b = Some (f a - f b)"
    using Cons.prems by (auto simp: set_sort_insert)
  from Cons.IH [OF this] have "filter (\<lambda>y. f y = k) (rev (foldl (\<lambda>d x. sort_insert c x d) (sort_insert c x acc) xs))
       = filter (\<lambda>y. f y = k) (rev (sort_insert c x acc)) @ filter (\<lambda>y. f y = k) xs"
    by simp
  also have "filter (\<lambda>y. f y = k) (rev (sort_insert c x acc)) = rev (filter (\<lambda>y. f y = k) (sort_insert c x acc))"
    by (simp add: rev_filter)
  also have "\<dots> = rev (filter (\<lambda>y. f y = k) (x # acc))" by (simp only: 1)
  finally show ?case by (simp add: rev_filter)
qed

lemma Array_sort_eq_sort_key:
  assumes "\<forall>a\<in>set xs. \<forall>b\<in>set xs. c a b = Some (f a - f b)"
  shows "Array_sort c xs = sort_key f xs"
proof (rule sym, rule properties_for_sort_key)
  show "mset (Array_sort c xs) = mset xs" by (rule mset_Array_sort)
  show "sorted (map f (Array_sort c xs))" using assms by (rule sorted_Array_sort)
  fix k assume "k \<in> set (Array_sort c xs)"
  have "filter (\<lambda>y. f y = f k) (Array_sort c xs) = filter (\<lambda>y. f y = f k) xs"
    using filter_foldl_sort_insert [of "[]" xs c f "f k"] assms by (simp add: Array_sort_def)
  then show "filter (\<lambda>x. f k = f x) (Array_sort c xs) = filter (\<lambda>x. f k = f x) xs"
    by (simp add: eq_commute)
qed


subsection \<open>Saving, adding, and the invariant of the container\<close>

lemma tasks_saveToLocalStorage [simp]: "tasks (saveToLocalStorage s) = tasks s"
  by (simp add: saveToLocalStorage_def setItem_def Let_def)

lemma calls_saveToLocalStorage:
  "setItem_calls (localStorage (saveToLocalStorage s)) = Suc (setItem_calls (localStorage s))"
  by (simp add: saveToLocalStorage_def setItem_def Let_def)

lemma items_saveToLocalStorage:
  "items (localStorage (saveToLocalStorage s)) =
     (if over_quota (localStorage s) (JSON_stringify (tasks s)) then items (localStorage s)
      else (items (localStorage s))(STORAGE_KEY \<mapsto> JSON_stringify (tasks s)))"
  by (simp add: saveToLocalStorage_def setItem_def Let_def Map_entries_def)

lemma addTask_valid:
  assumes "\<not> Map_has id_arg (tasks s)" "trim id_arg \<noteq> []" "trim description_arg \<noteq> []" "trim datetime_arg \<noteq> []"
  shows "addTask now id_arg description_arg datetime_arg s =
     (Inr True, saveToLocalStorage (s\<lparr>tasks := tasks s @ [(id_arg,
        \<lparr>id_field = trim id_arg, description = trim description_arg,
         datetime = datetime_arg, createdAt = Date_object now\<rparr>)]\<rparr>))"
  using assms by (simp add: addTask_def Map_has_def Map_set_absent)

lemma Map_ok_Nil: "Map_ok []"
  by (simp add: Map_ok_def)

lemma Map_ok_constructor: "Map_ok (tasks (constructor ls))"
  by (simp add: constructor_def loadFromLocalStorage_def Map_ok_new Map_ok_Nil
      split: option.splits stored.splits sum.splits)

lemma Map_ok_addTask:
  "Map_ok (tasks s) \<Longrightarrow> Map_ok (tasks (snd (addTask now i d t s)))"
  by (simp add: addTask_def Let_def Map_ok_set)

lemma Map_ok_removeTask: "Map_ok (tasks s) \<Longrightarrow> Map_ok (tasks (snd (removeTask i s)))"
  by (simp add: removeTask_def Map_delete_def Let_def Map_ok_filter)

lemma Map_ok_clearAllTasks: "Map_ok (tasks (clearAllTasks s))"
  by (simp add: clearAllTasks_def Map_clear_def Map_ok_def)

lemma addTask_present_key:
  "hasTask id_arg s \<Longrightarrow>
     addTask now id_arg description_arg datetime_arg s = (Inl (DuplicateKey id_arg), s)"
  by (simp add: addTask_def hasTask_def)

subsection \<open>Dates that parse\<close>

lemma compare_datetime_parseable:
  assumes "parse (datetime a) \<noteq> None" "parse (datetime b) \<noteq> None"
  shows "compare_datetime parse a b = Some (the (parse (datetime a)) - the (parse (datetime b)))"
  using assms by (auto simp: compare_datetime_def)

lemma ascending_by_datetime_sorted:
  assumes "\<forall>t\<in>set ts. parse (datetime t) \<noteq> None"
  shows "ascending_by_datetime parse ts = sorted (map (\<lambda>t. the (parse (datetime t))) ts)"
proof -
  have "sorted_wrt (\<lambda>a b. case (parse (datetime a), parse (datetime b)) of
                          (Some x, Some y) \<Rightarrow> x \<le> y | _ \<Rightarrow> True) ts
      = sorted_wrt (\<lambda>a b. the (parse (datetime a)) \<le> the (parse (datetime b))) ts"
    using assms
    by (auto elim!: sorted_wrt_mono_rel [rotated] split: option.splits)
  then show ?thesis by (simp add: ascending_by_datetime_def sorted_map)
qed

subsection \<open>Running the example stores\<close>

lemmas run_defs = js_def trim_def isWhiteSpace_def constructor_def loadFromLocalStorage_def
  getItem_def fresh_storage_def full_storage_def addTask_def Map_has_def saveToLocalStorage_def
  setItem_def Map_entries_def JSON_stringify_def toJSON_def STORAGE_KEY_def Let_def hasTask_def
  getTask_def Map_get_def getTaskCount_def Map_size_def removeTask_def Map_delete_def Map_ok_def
  store_T1_def store_T1_T2_def

lemma tasks_store_T1:
  "tasks store_T1 = [(js ''T1'', \<lparr>id_field = js ''T1'', description = js ''Write report'',
      datetime = js ''2025-07-15T14:30'', createdAt = Date_object 0\<rparr>)]"
  by (simp add: run_defs)

lemma tasks_store_T1_T2:
  "tasks store_T1_T2 = [(js ''T1'', \<lparr>id_field = js ''T1'', description = js ''Write report'',
      datetime = js ''2025-07-15T14:30'', createdAt = Date_object 0\<rparr>),
     (js ''T2'', \<lparr>id_field = js ''T2'', description = js ''Other'',
      datetime = js ''2025-07-16T09:00'', createdAt = Date_object 1\<rparr>)]"
  by (simp add: run_defs)

lemma Date_parse_examples:
  "Date_parse (js ''2025-01-01T09:00'') = Some 1735722000000"
  "Date_parse (js ''2025-01-02T10:00'') = Some 1735812000000"
  "Date_parse (js ''2025-01-03T08:00'') = Some 1735891200000"
  "Date_parse (js ''soon'') = None"
  "Date_parse (js ''later'') = None"
  by (simp_all add: Date_parse_def js_def digit_def MakeDay_def DaysInMonth_def)

lemma trim_examples:
  "trim (js ''2025-01-01T09:00'') \<noteq> []"
  "trim (js ''2025-01-02T10:00'') \<noteq> []"
  "trim (js ''2025-01-03T08:00'') \<noteq> []"
  by (simp_all add: trim_def js_def isWhiteSpace_def)

lemma tasks_store_unparseable:
  "map (\<lambda>e. datetime (snd e)) (tasks store_unparseable)
     = [js ''2025-01-03T08:00'', js ''soon'', js ''later'', js ''2025-01-01T09:00'']"
  by (simp add: run_defs store_unparseable_def)

section \<open>The claims\<close>

subsection \<open>Blank fields\<close>

text \<open>
  Claim C3. When no task is stored under the key \<open>id\<close> and at least one of \<open>id\<close>,
  \<open>description\<close> and \<open>datetime\<close> is empty after trimming, \<open>addTask\<close> throws the
  invalid-input error and the whole state (the collection, hence its count, and the
  storage) is as before.
\<close>

theorem addTask_blank_is_InvalidInput:
  assumes "\<not> hasTask id_arg s"
    and "trim id_arg = [] \<or> trim description_arg = [] \<or> trim datetime_arg = []"
  shows "addTask now id_arg description_arg datetime_arg s = (Inl InvalidInput, s)
       \<and> getTaskCount (snd (addTask now id_arg description_arg datetime_arg s)) = getTaskCount s"
  using assms by (auto simp: addTask_def hasTask_def)

theorem addTask_blank_is_InvalidInput_witness:
  "\<not> hasTask (js ''T2'') store_T1 \<and> trim (js ''  '') = []
   \<and> addTask 5 (js ''T2'') (js ''  '') (js ''2025-07-16T09:00'') store_T1 = (Inl InvalidInput, store_T1)
   \<and> getTaskCount (snd (addTask 5 (js ''T2'') (js ''  '') (js ''2025-07-16T09:00'') store_T1)) = 1"
proof -
  have h1: "\<not> hasTask (js ''T2'') store_T1" by (simp add: run_defs)
  have h2: "trim (js ''  '') = []" by (simp add: run_defs)
  have c: "getTaskCount store_T1 = 1" by (simp add: getTaskCount_def Map_size_def tasks_store_T1)
  from h2 have "trim (js ''T2'') = [] \<or> trim (js ''  '') = [] \<or> trim (js ''2025-07-16T09:00'') = []"
    by simp
  from addTask_blank_is_InvalidInput [OF h1 this, of 5] h1 h2 c show ?thesis by simp
qed

subsection \<open>Removing\<close>

text \<open>
  Claim C6. For an \<open>id\<close> that is no key of the collection, \<open>removeTask\<close> returns
  \<open>false\<close> and the state is as before: the collection and its count, and the storage,
  on which \<open>setItem\<close> is not called.
\<close>

theorem removeTask_absent_is_noop:
  assumes "\<not> hasTask id_arg s"
  shows "removeTask id_arg s = (False, s)
       \<and> getTaskCount (snd (removeTask id_arg s)) = getTaskCount s
       \<and> setItem_calls (localStorage (snd (removeTask id_arg s))) = setItem_calls (localStorage s)
       \<and> items (localStorage (snd (removeTask id_arg s))) = items (localStorage s)"
proof -
  from assms have "map_of (tasks s) id_arg = None"
    by (simp add: hasTask_def Map_has_def)
  then have "removeTask id_arg s = (False, s)"
    by (simp add: removeTask_def Map_delete_def Map_has_def filter_absent)
  then show ?thesis by simp
qed

theorem removeTask_absent_is_noop_witness:
  "\<not> hasTask (js ''T2'') store_T1
   \<and> removeTask (js ''T2'') store_T1 = (False, store_T1)
   \<and> getTaskCount (snd (removeTask (js ''T2'') store_T1)) = 1
   \<and> setItem_calls (localStorage (snd (removeTask (js ''T2'') store_T1))) = 1"
proof -
  have h1: "\<not> hasTask (js ''T2'') store_T1" by (simp add: run_defs)
  have c: "getTaskCount store_T1 = 1" by (simp add: getTaskCount_def Map_size_def tasks_store_T1)
  have n: "setItem_calls (localStorage store_T1) = 1" by (simp add: run_defs)
  from removeTask_absent_is_noop [OF h1] h1 c n show ?thesis by simp
qed

text \<open>
  Claim C7. For an \<open>id\<close> that is a key of the collection (a \<open>Map\<close>, so no key is there
  twice), \<open>removeTask\<close> returns \<open>true\<close>, the count goes down by exactly one, \<open>hasTask\<close>
  of the id is false afterwards and \<open>getTask\<close> finds nothing, and every other key still
  gives the task it gave.
\<close>

theorem removeTask_present:
  assumes "Map_ok (tasks s)" and "hasTask id_arg s"
  shows "fst (removeTask id_arg s) = True
       \<and> Suc (getTaskCount (snd (removeTask id_arg s))) = getTaskCount s
       \<and> hasTask id_arg (snd (removeTask id_arg s)) = False
       \<and> getTask id_arg (snd (removeTask id_arg s)) = None
       \<and> (\<forall>k. k \<noteq> id_arg \<longrightarrow> getTask k (snd (removeTask id_arg s)) = getTask k s)"
proof -
  from assms(2) have present: "map_of (tasks s) id_arg \<noteq> None"
    by (simp add: hasTask_def Map_has_def)
  then have r: "removeTask id_arg s =
      (True, saveToLocalStorage (s\<lparr>tasks := filter (\<lambda>e. fst e \<noteq> id_arg) (tasks s)\<rparr>))"
    by (simp add: removeTask_def Map_delete_def Map_has_def)
  have "Suc (length (filter (\<lambda>e. fst e \<noteq> id_arg) (tasks s))) = length (tasks s)"
    using assms(1) present by (simp add: Map_ok_def length_filter_present)
  then show ?thesis
    by (simp add: r getTaskCount_def Map_size_def hasTask_def Map_has_def getTask_def Map_get_def
        map_of_filter_key)
qed

theorem removeTask_present_witness:
  "Map_ok (tasks store_T1_T2) \<and> hasTask (js ''T1'') store_T1_T2
   \<and> getTaskCount store_T1_T2 = 2
   \<and> fst (removeTask (js ''T1'') store_T1_T2) = True
   \<and> getTaskCount (snd (removeTask (js ''T1'') store_T1_T2)) = 1
   \<and> hasTask (js ''T1'') (snd (removeTask (js ''T1'') store_T1_T2)) = False
   \<and> getTask (js ''T1'') (snd (removeTask (js ''T1'') store_T1_T2)) = None
   \<and> getTask (js ''T2'') (snd (removeTask (js ''T1'') store_T1_T2)) = getTask (js ''T2'') store_T1_T2"
proof -
  have h1: "Map_ok (tasks store_T1_T2)" by (simp add: tasks_store_T1_T2 Map_ok_def js_def)
  have h2: "hasTask (js ''T1'') store_T1_T2" by (simp add: tasks_store_T1_T2 hasTask_def Map_has_def)
  have c: "getTaskCount store_T1_T2 = 2" by (simp add: getTaskCount_def Map_size_def tasks_store_T1_T2)
  have d: "js ''T2'' \<noteq> js ''T1''" by (simp add: js_def)
  from removeTask_present [OF h1 h2] h1 h2 c d show ?thesis by simp
qed

subsection \<open>Clearing\<close>

text \<open>
  Claim C9. After \<open>clearAllTasks\<close> the count is zero and \<open>getAllTasks\<close> returns the
  empty array, whatever was stored; \<open>setItem\<close> is called once more whether or not the
  collection was empty already, and when the storage accepts the write the slot holds the
  serialized empty collection.
\<close>

theorem clearAllTasks_empties_and_persists:
  "getTaskCount (clearAllTasks s) = 0
   \<and> getAllTasks parse (clearAllTasks s) = []
   \<and> setItem_calls (localStorage (clearAllTasks s)) = Suc (setItem_calls (localStorage s))
   \<and> (\<not> over_quota (localStorage s) (JSON_stringify []) \<longrightarrow>
        getItem STORAGE_KEY (localStorage (clearAllTasks s)) = Some (JSON_stringify []))"
  by (simp add: clearAllTasks_def Map_clear_def getTaskCount_def Map_size_def getAllTasks_def
      Map_values_def Array_sort_def calls_saveToLocalStorage getItem_def items_saveToLocalStorage)

theorem clearAllTasks_empties_and_persists_witness:
  "getTaskCount (constructor fresh_storage) = 0
   \<and> \<not> over_quota fresh_storage (JSON_stringify [])
   \<and> getTaskCount (clearAllTasks (constructor fresh_storage)) = 0
   \<and> getAllTasks Date_parse (clearAllTasks (constructor fresh_storage)) = []
   \<and> setItem_calls (localStorage (clearAllTasks (constructor fresh_storage))) = 1
   \<and> getItem STORAGE_KEY (localStorage (clearAllTasks (constructor fresh_storage))) = Some (Text_entries [])"
proof -
  have c: "getTaskCount (constructor fresh_storage) = 0" by (simp add: run_defs)
  have l: "localStorage (constructor fresh_storage) = fresh_storage" by (simp add: run_defs)
  have q: "\<not> over_quota fresh_storage (JSON_stringify [])" by (simp add: fresh_storage_def)
  have n: "setItem_calls fresh_storage = 0" by (simp add: fresh_storage_def)
  have j: "JSON_stringify [] = Text_entries []" by (simp add: JSON_stringify_def)
  from clearAllTasks_empties_and_persists [of "constructor fresh_storage" Date_parse] c l q n j
  show ?thesis by simp
qed

subsection \<open>A write that fails\<close>

text \<open>
  Claim C8. On a valid input (no entry under the key, no field blank) \<open>addTask\<close> returns
  \<open>true\<close>, and the new task is in the collection under its key and counted, for every
  storage, also one that refuses the write: then the slot keeps what it held, and the
  result and the collection are the same.
\<close>

theorem addTask_succeeds_when_persist_fails:
  assumes "\<not> hasTask id_arg s"
    and "trim id_arg \<noteq> []" and "trim description_arg \<noteq> []" and "trim datetime_arg \<noteq> []"
  shows "fst (addTask now id_arg description_arg datetime_arg s) = Inr True
       \<and> getTask id_arg (snd (addTask now id_arg description_arg datetime_arg s)) =
           Some \<lparr>id_field = trim id_arg, description = trim description_arg,
                 datetime = datetime_arg, createdAt = Date_object now\<rparr>
       \<and> getTaskCount (snd (addTask now id_arg description_arg datetime_arg s)) = Suc (getTaskCount s)
       \<and> (over_quota (localStorage s)
             (JSON_stringify (tasks (snd (addTask now id_arg description_arg datetime_arg s)))) \<longrightarrow>
            items (localStorage (snd (addTask now id_arg description_arg datetime_arg s)))
              = items (localStorage s))"
proof -
  from assms(1) have absent: "\<not> Map_has id_arg (tasks s)" by (simp add: hasTask_def)
  then have none: "map_of (tasks s) id_arg = None" by (simp add: Map_has_def)
  note r = addTask_valid [OF absent assms(2-4), of now]
  show ?thesis
    by (simp add: r none getTask_def Map_get_def getTaskCount_def Map_size_def
        items_saveToLocalStorage map_add_def)
qed

theorem addTask_succeeds_when_persist_fails_witness:
  "\<not> hasTask (js ''T1'') store_full
   \<and> trim (js ''T1'') \<noteq> [] \<and> trim (js ''Write report'') \<noteq> [] \<and> trim (js ''2025-07-15T14:30'') \<noteq> []
   \<and> over_quota (localStorage store_full)
        (JSON_stringify (tasks (snd (addTask 0 (js ''T1'') (js ''Write report'') (js ''2025-07-15T14:30'') store_full))))
   \<and> fst (addTask 0 (js ''T1'') (js ''Write report'') (js ''2025-07-15T14:30'') store_full) = Inr True
   \<and> getTask (js ''T1'') (snd (addTask 0 (js ''T1'') (js ''Write report'') (js ''2025-07-15T14:30'') store_full)) =
        Some \<lparr>id_field = js ''T1'', description = js ''Write report'',
              datetime = js ''2025-07-15T14:30'', createdAt = Date_object 0\<rparr>
   \<and> getTaskCount (snd (addTask 0 (js ''T1'') (js ''Write report'') (js ''2025-07-15T14:30'') store_full)) = 1
   \<and> items (localStorage (snd (addTask 0 (js ''T1'') (js ''Write report'') (js ''2025-07-15T14:30'') store_full))) STORAGE_KEY = None"
proof -
  have h1: "\<not> hasTask (js ''T1'') store_full" by (simp add: run_defs store_full_def)
  have h2: "trim (js ''T1'') = js ''T1''" by (simp add: run_defs)
  have h3: "trim (js ''Write report'') = js ''Write report''" by (simp add: run_defs)
  have h4: "trim (js ''2025-07-15T14:30'') = js ''2025-07-15T14:30''" by (simp add: run_defs)
  have n2: "js ''T1'' \<noteq> []" "js ''Write report'' \<noteq> []" "js ''2025-07-15T14:30'' \<noteq> []"
    by (simp_all add: js_def)
  have q: "\<And>v. over_quota (localStorage store_full) v" by (simp add: run_defs store_full_def)
  have c: "getTaskCount store_full = 0" by (simp add: run_defs store_full_def)
  have i: "items (localStorage store_full) = Map.empty" by (simp add: run_defs store_full_def)
  from addTask_succeeds_when_persist_fails [of "js ''T1''" store_full "js ''Write report''" "js ''2025-07-15T14:30''" 0]
    h1 h2 h3 h4 n2 q c i
  show ?thesis by simp
qed

subsection \<open>Round trip through the storage\<close>

text \<open>
  Claim C5, amended. Saving a collection with \<open>saveToLocalStorage\<close>, on a storage that
  accepts the write, and starting a new session on that storage gives back the same keys
  in the same order, each with a task of the same \<open>id\<close>, \<open>description\<close> and
  \<open>datetime\<close>; the \<open>createdAt\<close> comes back as text.
\<close>

theorem persist_restore_roundtrip:
  assumes "Map_ok (tasks s)"
    and "\<not> over_quota (localStorage s) (JSON_stringify (Map_entries (tasks s)))"
  shows "tasks (constructor (localStorage (saveToLocalStorage s)))
           = map (\<lambda>e. (fst e, toJSON (snd e))) (tasks s)
       \<and> map (\<lambda>e. (fst e, id_field (snd e), description (snd e), datetime (snd e)))
             (tasks (constructor (localStorage (saveToLocalStorage s))))
           = map (\<lambda>e. (fst e, id_field (snd e), description (snd e), datetime (snd e))) (tasks s)"
proof -
  let ?es = "map (\<lambda>e. (fst e, toJSON (snd e))) (tasks s)"
  from assms(1) have ok: "Map_ok ?es" by (simp add: Map_ok_def comp_def)
  from assms(2) have "getItem STORAGE_KEY (localStorage (saveToLocalStorage s)) = Some (Text_entries ?es)"
    by (simp add: getItem_def items_saveToLocalStorage Map_entries_def JSON_stringify_def)
  then have "tasks (constructor (localStorage (saveToLocalStorage s))) = Map_new ?es"
    by (simp add: constructor_def loadFromLocalStorage_def)
  with ok have 1: "tasks (constructor (localStorage (saveToLocalStorage s))) = ?es"
    by (simp add: Map_new_distinct)
  show ?thesis by (simp add: 1 comp_def toJSON_def)
qed

theorem persist_restore_roundtrip_witness:
  "Map_ok (tasks store_T1_T2)
   \<and> \<not> over_quota (localStorage store_T1_T2) (JSON_stringify (Map_entries (tasks store_T1_T2)))
   \<and> map (\<lambda>e. (fst e, id_field (snd e), description (snd e), datetime (snd e)))
         (tasks (constructor (localStorage (saveToLocalStorage store_T1_T2))))
       = [(js ''T1'', js ''T1'', js ''Write report'', js ''2025-07-15T14:30''),
          (js ''T2'', js ''T2'', js ''Other'', js ''2025-07-16T09:00'')]
   \<and> map (\<lambda>e. createdAt (snd e)) (tasks (constructor (localStorage (saveToLocalStorage store_T1_T2))))
       = [Date_text 0, Date_text 1]"
proof -
  have h1: "Map_ok (tasks store_T1_T2)" by (simp add: tasks_store_T1_T2 Map_ok_def js_def)
  have h2: "\<And>v. \<not> over_quota (localStorage store_T1_T2) v" by (simp add: run_defs)
  from persist_restore_roundtrip [OF h1 h2] h1 h2
  show ?thesis by (simp add: tasks_store_T1_T2 toJSON_def)
qed

text \<open>
  Claim C5 as stated, for every collection, fails when the storage refuses the write:
  \<open>saveToLocalStorage\<close> catches the error, the slot stays empty, and the next session
  starts with no task.
\<close>

theorem persist_restore_refused_write_counterexample:
  "map (\<lambda>e. (fst e, id_field (snd e), description (snd e), datetime (snd e))) (tasks store_T1_unsaved)
     = [(js ''T1'', js ''T1'', js ''Write report'', js ''2025-07-15T14:30'')]
   \<and> tasks (constructor (localStorage (saveToLocalStorage store_T1_unsaved))) = []"
  by (simp add: run_defs store_T1_unsaved_def store_full_def)

subsection \<open>The listing\<close>

text \<open>
  Claim C4, amended. \<open>getAllTasks\<close> returns the stored tasks, each as often as it is
  stored. When every stored \<open>datetime\<close> parses as a date the result is in ascending order
  of the parsed dates, and it is the stable sort of the values in insertion order. In
  particular, with a parser that reads the three texts as dates in their natural order,
  adding tasks dated 2025-01-02T10:00, 2025-01-01T09:00 and 2025-01-03T08:00 to an empty
  collection, in that order, lists them as 2025-01-01, 2025-01-02, 2025-01-03.
\<close>

theorem getAllTasks_sorted_when_dates_parse:
  "mset (getAllTasks parse s) = mset (Map_values (tasks s))
   \<and> ((\<forall>t\<in>set (Map_values (tasks s)). parse (datetime t) \<noteq> None) \<longrightarrow>
        ascending_by_datetime parse (getAllTasks parse s)
        \<and> getAllTasks parse s = sort_key (\<lambda>t. the (parse (datetime t))) (Map_values (tasks s)))
   \<and> (tasks s0 = [] \<and> k1 \<noteq> k2 \<and> k1 \<noteq> k3 \<and> k2 \<noteq> k3
        \<and> trim k1 \<noteq> [] \<and> trim k2 \<noteq> [] \<and> trim k3 \<noteq> []
        \<and> trim d1 \<noteq> [] \<and> trim d2 \<noteq> [] \<and> trim d3 \<noteq> []
        \<and> parse (js ''2025-01-02T10:00'') = Some a
        \<and> parse (js ''2025-01-01T09:00'') = Some b
        \<and> parse (js ''2025-01-03T08:00'') = Some c \<and> b < a \<and> a < c \<longrightarrow>
      map datetime (getAllTasks parse
          (snd (addTask n3 k3 d3 (js ''2025-01-03T08:00'')
            (snd (addTask n2 k2 d2 (js ''2025-01-01T09:00'')
              (snd (addTask n1 k1 d1 (js ''2025-01-02T10:00'') s0)))))))
        = [js ''2025-01-01T09:00'', js ''2025-01-02T10:00'', js ''2025-01-03T08:00''])"
proof -
  let ?f = "\<lambda>t. the (parse (datetime t))"
  let ?vs = "Map_values (tasks s)"
  have perm: "mset (getAllTasks parse s) = mset ?vs"
    by (simp add: getAllTasks_def mset_Array_sort)
  have general: "ascending_by_datetime parse (getAllTasks parse s) \<and> getAllTasks parse s = sort_key ?f ?vs"
    if p: "\<forall>t\<in>set ?vs. parse (datetime t) \<noteq> None"
  proof -
    from p have "\<forall>a\<in>set ?vs. \<forall>b\<in>set ?vs. compare_datetime parse a b = Some (?f a - ?f b)"
      by (simp add: compare_datetime_parseable)
    then have eq: "getAllTasks parse s = sort_key ?f ?vs"
      unfolding getAllTasks_def by (rule Array_sort_eq_sort_key)
    from p have "\<forall>t\<in>set (getAllTasks parse s). parse (datetime t) \<noteq> None"
      by (simp add: eq)
    then have "ascending_by_datetime parse (getAllTasks parse s)"
      by (simp add: ascending_by_datetime_sorted eq)
    with eq show ?thesis by simp
  qed
  have example: "map datetime (getAllTasks parse
          (snd (addTask n3 k3 d3 (js ''2025-01-03T08:00'')
            (snd (addTask n2 k2 d2 (js ''2025-01-01T09:00'')
              (snd (addTask n1 k1 d1 (js ''2025-01-02T10:00'') s0)))))))
        = [js ''2025-01-01T09:00'', js ''2025-01-02T10:00'', js ''2025-01-03T08:00'']"
    if h: "tasks s0 = []" "k1 \<noteq> k2" "k1 \<noteq> k3" "k2 \<noteq> k3"
       "trim k1 \<noteq> []" "trim k2 \<noteq> []" "trim k3 \<noteq> []"
       "trim d1 \<noteq> []" "trim d2 \<noteq> []" "trim d3 \<noteq> []"
      and pa: "parse (js ''2025-01-02T10:00'') = Some a"
      and pb: "parse (js ''2025-01-01T09:00'') = Some b"
      and pc: "parse (js ''2025-01-03T08:00'') = Some c" and lt: "b < a" "a < c"
  proof -
    have "map datetime (Map_values (tasks
          (snd (addTask n3 k3 d3 (js ''2025-01-03T08:00'')
            (snd (addTask n2 k2 d2 (js ''2025-01-01T09:00'')
              (snd (addTask n1 k1 d1 (js ''2025-01-02T10:00'') s0))))))))
        = [js ''2025-01-02T10:00'', js ''2025-01-01T09:00'', js ''2025-01-03T08:00'']"
      using h by (simp add: addTask_def Map_has_def Let_def trim_examples Map_values_def)
    then obtain t1 t2 t3 where vs: "Map_values (tasks
          (snd (addTask n3 k3 d3 (js ''2025-01-03T08:00'')
            (snd (addTask n2 k2 d2 (js ''2025-01-01T09:00'')
              (snd (addTask n1 k1 d1 (js ''2025-01-02T10:00'') s0)))))))  = [t1, t2, t3]"
      and d: "datetime t1 = js ''2025-01-02T10:00''" "datetime t2 = js ''2025-01-01T09:00''"
         "datetime t3 = js ''2025-01-03T08:00''"
      by (auto simp: map_eq_Cons_conv)
    show ?thesis
      using lt by (simp add: getAllTasks_def vs Array_sort_def SortCompare_def compare_datetime_def d pa pb pc)
  qed
  from perm general example show ?thesis by blast
qed

theorem getAllTasks_sorted_when_dates_parse_witness:
  "list_all (\<lambda>t. Date_parse (datetime t) \<noteq> None) (Map_values (tasks store_three))
   \<and> map datetime (Map_values (tasks store_three))
       = [js ''2025-01-02T10:00'', js ''2025-01-01T09:00'', js ''2025-01-03T08:00'']
   \<and> map datetime (getAllTasks Date_parse store_three)
       = [js ''2025-01-01T09:00'', js ''2025-01-02T10:00'', js ''2025-01-03T08:00'']
   \<and> ascending_by_datetime Date_parse (getAllTasks Date_parse store_three)
   \<and> mset (getAllTasks Date_parse store_three) = mset (Map_values (tasks store_three))"
proof -
  have vs: "map datetime (Map_values (tasks store_three))
       = [js ''2025-01-02T10:00'', js ''2025-01-01T09:00'', js ''2025-01-03T08:00'']"
    by (simp add: run_defs store_three_def Map_values_def)
  then have p: "list_all (\<lambda>t. Date_parse (datetime t) \<noteq> None) (Map_values (tasks store_three))"
    by (auto simp: map_eq_Cons_conv Date_parse_examples)
  then have p': "\<forall>t\<in>set (Map_values (tasks store_three)). Date_parse (datetime t) \<noteq> None"
    by (simp add: list_all_iff)
  have h: "tasks (constructor fresh_storage) = []" by (simp add: run_defs)
  have k: "js ''a'' \<noteq> js ''b''" "js ''a'' \<noteq> js ''c''" "js ''b'' \<noteq> js ''c''"
    by (simp_all add: js_def)
  have t: "trim (js ''a'') \<noteq> []" "trim (js ''b'') \<noteq> []" "trim (js ''c'') \<noteq> []"
    "trim (js ''first'') \<noteq> []" "trim (js ''second'') \<noteq> []" "trim (js ''third'') \<noteq> []"
    by (simp_all add: run_defs)
  note T = getAllTasks_sorted_when_dates_parse [of Date_parse store_three "constructor fresh_storage"
      "js ''a''" "js ''b''" "js ''c''" "js ''first''" "js ''second''" "js ''third''"
      1735812000000 1735722000000 1735891200000 3 2 1]
  from T have a: "mset (getAllTasks Date_parse store_three) = mset (Map_values (tasks store_three))"
    by (rule conjunct1)
  from T p' have b: "ascending_by_datetime Date_parse (getAllTasks Date_parse store_three)"
    by blast
  have lt: "(1735722000000::int) < 1735812000000" "(1735812000000::int) < 1735891200000"
    by simp_all
  from T h k t Date_parse_examples(1-3) lt
  have c: "map datetime (getAllTasks Date_parse store_three)
       = [js ''2025-01-01T09:00'', js ''2025-01-02T10:00'', js ''2025-01-03T08:00'']"
    unfolding store_three_def by blast
  from p vs c b a show ?thesis by blast
qed

text \<open>
  Claim C4 as stated, for every store, fails. Between a task dated 2025-01-03 and a later
  one dated 2025-01-01 stand two tasks whose \<open>datetime\<close> is no date; the comparator
  returns \<open>NaN\<close> for every pair of neighbours, the sort reads it as equal, and the listing
  is in the order of insertion, the later date first.
\<close>

theorem getAllTasks_unparseable_counterexample:
  "map datetime (getAllTasks Date_parse store_unparseable)
     = [js ''2025-01-03T08:00'', js ''soon'', js ''later'', js ''2025-01-01T09:00'']
   \<and> \<not> ascending_by_datetime Date_parse (getAllTasks Date_parse store_unparseable)"
proof -
  from tasks_store_unparseable obtain t1 t2 t3 t4 where
    vs: "Map_values (tasks store_unparseable) = [t1, t2, t3, t4]"
    and d: "datetime t1 = js ''2025-01-03T08:00''" "datetime t2 = js ''soon''"
      "datetime t3 = js ''later''" "datetime t4 = js ''2025-01-01T09:00''"
    by (auto simp: map_eq_Cons_conv Map_values_def)
  have g: "getAllTasks Date_parse store_unparseable = [t1, t2, t3, t4]"
    by (simp add: getAllTasks_def vs Array_sort_def SortCompare_def compare_datetime_def d
        Date_parse_examples)
  show ?thesis
    by (simp add: g d ascending_by_datetime_def Date_parse_examples)
qed

subsection \<open>The key and the \<open>id\<close> field\<close>

text \<open>
  Claim C10. On a fresh store, after \<open>addTask\<close> succeeds with an \<open>id\<close> that has
  whitespace around a non-empty core, \<open>getTask\<close> of the trimmed id finds nothing and
  \<open>getTask\<close> of the id as given finds a task whose \<open>id\<close> field is the trimmed id.
\<close>

theorem addTask_key_is_untrimmed_id:
  assumes "tasks s = []"
    and "id_arg \<noteq> trim id_arg" and "trim id_arg \<noteq> []"
    and "fst (addTask now id_arg description_arg datetime_arg s) = Inr True"
  shows "getTask (trim id_arg) (snd (addTask now id_arg description_arg datetime_arg s)) = None
       \<and> (\<exists>t. getTask id_arg (snd (addTask now id_arg description_arg datetime_arg s)) = Some t
              \<and> id_field t = trim id_arg)"
  using assms
  by (auto simp: addTask_def Map_has_def getTask_def Map_get_def Let_def split: if_splits)

theorem addTask_key_is_untrimmed_id_witness:
  "tasks (constructor fresh_storage) = []
   \<and> js '' a'' \<noteq> trim (js '' a'') \<and> trim (js '' a'') = js ''a'' \<and> js ''a'' \<noteq> []
   \<and> fst (addTask 1 (js '' a'') (js ''first'') (js ''2025-01-01T09:00'') (constructor fresh_storage)) = Inr True
   \<and> getTask (js ''a'') (snd (addTask 1 (js '' a'') (js ''first'') (js ''2025-01-01T09:00'') (constructor fresh_storage))) = None
   \<and> (\<exists>t. getTask (js '' a'') (snd (addTask 1 (js '' a'') (js ''first'') (js ''2025-01-01T09:00'') (constructor fresh_storage))) = Some t
          \<and> id_field t = js ''a'')"
proof -
  have h1: "tasks (constructor fresh_storage) = []" by (simp add: run_defs)
  have t: "trim (js '' a'') = js ''a''" by (simp add: run_defs)
  have h2: "js '' a'' \<noteq> js ''a''" by (simp add: js_def)
  have h3: "js ''a'' \<noteq> []" by (simp add: js_def)
  have h4: "fst (addTask 1 (js '' a'') (js ''first'') (js ''2025-01-01T09:00'') (constructor fresh_storage)) = Inr True"
    by (simp add: run_defs)
  from addTask_key_is_untrimmed_id [of "constructor fresh_storage" "js '' a''" 1 "js ''first''" "js ''2025-01-01T09:00''"]
    h1 t h2 h3 h4
  show ?thesis by simp
qed

text \<open>
  Claim C1 says that no two stored tasks have the same \<open>id\<close> field. The code checks the
  key, which is the id as given, and stores the trimmed id in the task: adding \<open>" a"\<close> and
  then \<open>"a"\<close> to a fresh store succeeds twice and leaves two tasks whose \<open>id\<close> is \<open>a\<close>.
\<close>

theorem addTask_two_tasks_one_id:
  "fst (addTask 1 (js '' a'') (js ''first'') (js ''2025-01-01T09:00'') (constructor fresh_storage)) = Inr True
   \<and> fst (addTask 2 (js ''a'') (js ''second'') (js ''2025-01-02T10:00'')
       (snd (addTask 1 (js '' a'') (js ''first'') (js ''2025-01-01T09:00'') (constructor fresh_storage)))) = Inr True
   \<and> map fst (tasks store_padded_twice) = [js '' a'', js ''a'']
   \<and> map (\<lambda>e. id_field (snd e)) (tasks store_padded_twice) = [js ''a'', js ''a'']
   \<and> getTaskCount store_padded_twice = 2"
  by (simp add: run_defs store_padded_twice_def)

text \<open>
  Claim C2 says that \<open>addTask\<close> fails when a stored task has the trimmed id. With a task
  \<open>a\<close> stored, \<open>addTask\<close> of \<open>"a "\<close> returns \<open>true\<close> and stores a second task
  whose \<open>id\<close> is \<open>a\<close>.
\<close>

theorem addTask_trimmed_duplicate_accepted:
  "map_option id_field (getTask (js ''a'') store_a) = Some (js ''a'')
   \<and> trim (js ''a '') = js ''a''
   \<and> fst (addTask 2 (js ''a '') (js ''second'') (js ''2025-01-02T10:00'') store_a) = Inr True
   \<and> getTaskCount (snd (addTask 2 (js ''a '') (js ''second'') (js ''2025-01-02T10:00'') store_a)) = 2
   \<and> map (\<lambda>e. id_field (snd e))
        (tasks (snd (addTask 2 (js ''a '') (js ''second'') (js ''2025-01-02T10:00'') store_a)))
       = [js ''a'', js ''a'']"
  by (simp add: run_defs store_a_def)

end
